theory Spec2Isabelle
  imports Complex_Main "HOL-Library.Sublist" "HOL-Library.Char_ord" "HOL-Library.List_Lexorder"
    "HOL-Library.Product_Lexorder"
begin

section \<open>Strings\<close>


text \<open>The class \<open>\d\<close> of the \<open>re\<close> module and the digits \<open>float\<close> reads, on ASCII text.\<close>

definition is_digit :: "char \<Rightarrow> bool" where
  "is_digit c = (CHR ''0'' \<le> c \<and> c \<le> CHR ''9'')"

definition is_upper :: "char \<Rightarrow> bool" where
  "is_upper c = (CHR ''A'' \<le> c \<and> c \<le> CHR ''Z'')"

definition is_lower :: "char \<Rightarrow> bool" where
  "is_lower c = (CHR ''a'' \<le> c \<and> c \<le> CHR ''z'')"

text \<open>The class \<open>\w\<close> of the \<open>re\<close> module, on ASCII text.\<close>

definition is_word :: "char \<Rightarrow> bool" where
  "is_word c = (is_digit c \<or> is_upper c \<or> is_lower c \<or> c = CHR ''_'')"

text \<open>\<open>str.isspace\<close> on ASCII text: tab, line feed, vertical tab, form feed, carriage
  return, the four separators 28 to 31 and the space.\<close>

definition is_space :: "char \<Rightarrow> bool" where
  "is_space c = (c \<in> set [CHR 0x09, CHR 0x0A, CHR 0x0B, CHR 0x0C, CHR 0x0D,
                           CHR 0x1C, CHR 0x1D, CHR 0x1E, CHR 0x1F, CHR 0x20])"

definition lower_char :: "char \<Rightarrow> char" where
  "lower_char c = (if is_upper c then char_of (of_char c + (32::nat)) else c)"

definition upper_char :: "char \<Rightarrow> char" where
  "upper_char c = (if is_lower c then char_of (of_char c - (32::nat)) else c)"

text \<open>\<open>str.lower()\<close>, on ASCII text.\<close>

definition lower :: "string \<Rightarrow> string" where
  "lower s = map lower_char s"

text \<open>\<open>str.strip()\<close>, on ASCII text.\<close>

definition strip :: "string \<Rightarrow> string" where
  "strip s = rev (dropWhile is_space (rev (dropWhile is_space s)))"

text \<open>\<open>str.title()\<close>, on ASCII text: a letter after a letter is lower-cased, any other letter is
  upper-cased; the flag says whether the previous character was a letter.\<close>

fun title_from :: "bool \<Rightarrow> string \<Rightarrow> string" where
  "title_from prev_cased [] = []"
| "title_from prev_cased (c # cs) =
     (if is_lower c then (if prev_cased then c else upper_char c) # title_from True cs
      else if is_upper c then (if prev_cased then lower_char c else c) # title_from True cs
      else c # title_from False cs)"

definition title :: "string \<Rightarrow> string" where
  "title s = title_from False s"

text \<open>Truthiness of an optional string: \<open>None\<close> and \<open>""\<close> are false.\<close>

fun truthy :: "string option \<Rightarrow> bool" where
  "truthy None = False"
| "truthy (Some s) = (s \<noteq> [])"

section \<open>Dataset Store\<close>

text \<open>
  The two tables as \<open>load_data\<close> leaves them: one record per row, in file order. The
  \<open>date\<close> column is the year and month that \<open>pd.to_datetime\<close> read from \<open>year_month\<close>.
  Floats are modelled by reals. \<open>model\<close> is \<open>None\<close> when the predictor could not be
  loaded; a loaded predictor returns \<open>None\<close> where \<open>predict\<close> raises.

  \<open>DataFrame.sort_values\<close> sorts with an unstable algorithm by default: its result is
  ordered by the key, and the order it gives to rows with equal keys is the library's.
  The three sorts the code calls are therefore part of what the model is given:
  \<open>sort_rainfall\<close> and \<open>sort_groundwater\<close> are \<open>sort_values('year_month')\<close> on rows of
  the two tables, and \<open>sort_dates\<close> is \<open>sort_values(date_col)\<close> on the frame handed to
  the projection engine, which reads its date and value columns only.
\<close>

type_synonym series = "((nat \<times> nat) \<times> real) list"

record rainfall_row =
  r_state_name :: string
  r_year_month :: string
  r_date :: "nat \<times> nat"
  rainfall_actual_mm :: real

record groundwater_row =
  g_state_name :: string
  g_district_name :: string
  g_year_month :: string
  g_date :: "nat \<times> nat"
  gw_level_m_bgl :: real

record chatbot =
  rainfall :: "rainfall_row list"
  groundwater :: "groundwater_row list"
  model :: "(real \<Rightarrow> real \<Rightarrow> real option) option"
  sort_rainfall :: "rainfall_row list \<Rightarrow> rainfall_row list"
  sort_groundwater :: "groundwater_row list \<Rightarrow> groundwater_row list"
  sort_dates :: "series \<Rightarrow> series"

definition nonblank :: "string \<Rightarrow> bool" where
  "nonblank s = (s \<noteq> [] \<and> strip s \<noteq> [])"

definition get_available_states :: "chatbot \<Rightarrow> string list" where
  "get_available_states self =
     (if rainfall self = [] then []
      else sort (filter nonblank (remdups (map r_state_name (rainfall self)))))"

definition get_available_districts :: "chatbot \<Rightarrow> string \<Rightarrow> string list" where
  "get_available_districts self st =
     (if st \<noteq> [] \<and> groundwater self \<noteq> [] then
        sort (filter nonblank (remdups (map g_district_name
          (filter (\<lambda>r. g_state_name r = st) (groundwater self)))))
      else [])"

section \<open>Entity Extractor\<close>

record entities =
  ent_state :: "string option"
  ent_district :: "string option"
  ent_year :: "string option"
  ent_month :: "string option"
  ent_number :: "real option"

text \<open>\<open>\b\<close> between the previous character (if any) and the rest of the text.\<close>

definition word_boundary :: "char option \<Rightarrow> string \<Rightarrow> bool" where
  "word_boundary prev s =
     ((case prev of None \<Rightarrow> False | Some c \<Rightarrow> is_word c) \<noteq>
      (case s of [] \<Rightarrow> False | c # _ \<Rightarrow> is_word c))"

text \<open>\<open>re.search\<close>: the match at the leftmost position where the pattern matches.\<close>

fun re_search :: "(char option \<Rightarrow> string \<Rightarrow> 'a option) \<Rightarrow> char option \<Rightarrow> string \<Rightarrow> 'a option" where
  "re_search m prev [] = m prev []"
| "re_search m prev (c # cs) =
     (case m prev (c # cs) of Some r \<Rightarrow> Some r | None \<Rightarrow> re_search m (Some c) cs)"

text \<open>\<open>\b(20\d{2})(?:-(\d{2}))?\b\<close> at one position; the result is group 1. The optional
  group is tried first and given up when the closing \<open>\b\<close> fails after it.\<close>

definition year_match_at :: "char option \<Rightarrow> string \<Rightarrow> string option" where
  "year_match_at prev s =
     (case s of
        a # b # c # d # rest \<Rightarrow>
          if word_boundary prev s \<and> a = CHR ''2'' \<and> b = CHR ''0'' \<and> is_digit c \<and> is_digit d \<and>
             ((case rest of
                 h # e # f # rest' \<Rightarrow>
                   h = CHR ''-'' \<and> is_digit e \<and> is_digit f \<and> word_boundary (Some f) rest'
               | _ \<Rightarrow> False)
              \<or> word_boundary (Some d) rest)
          then Some [a, b, c, d] else None
      | _ \<Rightarrow> None)"

text \<open>\<open>\b(0[1-9]|1[0-2])-(20\d{2})\b\<close> at one position; the result is
  \<open>f"{group(2)}-{group(1)}"\<close>.\<close>

definition month_match_at :: "char option \<Rightarrow> string \<Rightarrow> string option" where
  "month_match_at prev s =
     (case s of
        a # b # h # c # d # e # f # rest \<Rightarrow>
          if word_boundary prev s \<and>
             (a = CHR ''0'' \<and> CHR ''1'' \<le> b \<and> b \<le> CHR ''9'' \<or>
              a = CHR ''1'' \<and> CHR ''0'' \<le> b \<and> b \<le> CHR ''2'') \<and>
             h = CHR ''-'' \<and> c = CHR ''2'' \<and> d = CHR ''0'' \<and> is_digit e \<and> is_digit f \<and>
             word_boundary (Some f) rest
          then Some ([c, d, e, f] @ ''-'' @ [a, b]) else None
      | _ \<Rightarrow> None)"

text \<open>\<open>(\d+\.?\d*)\<close> at a position that starts with a digit: the token and the rest.\<close>

definition match_number :: "string \<Rightarrow> string \<times> string" where
  "match_number s =
     (let ds = takeWhile is_digit s; r1 = dropWhile is_digit s in
      case r1 of
        c # r2 \<Rightarrow>
          if c = CHR ''.'' then (ds @ [c] @ takeWhile is_digit r2, dropWhile is_digit r2)
          else (ds, r1)
      | [] \<Rightarrow> (ds, r1))"

text \<open>\<open>(?:mm|m|cm|km)?\<close>: the first alternative that matches is consumed.\<close>

definition skip_unit :: "string \<Rightarrow> string" where
  "skip_unit s =
     (if prefix ''mm'' s then drop 2 s
      else if prefix ''m'' s then drop 1 s
      else if prefix ''cm'' s then drop 2 s
      else if prefix ''km'' s then drop 2 s
      else s)"

text \<open>\<open>re.findall(number_pattern, text)\<close>: the tokens (group 1) of the successive
  non-overlapping matches, left to right.\<close>

function number_tokens :: "string \<Rightarrow> string list" where
  "number_tokens [] = []"
| "number_tokens (c # cs) =
     (if is_digit c then
        fst (match_number (c # cs)) # number_tokens (skip_unit (snd (match_number (c # cs))))
      else number_tokens cs)"
  by pat_completeness auto
termination number_tokens
proof (relation "measure length")
  fix c cs
  assume digit: "is_digit c"
  have a: "length (snd (match_number s)) \<le> length (dropWhile is_digit s)" for s
  proof (cases "dropWhile is_digit s")
    case Nil
    show ?thesis unfolding match_number_def Let_def Nil by simp
  next
    case (Cons d r2)
    have "length (dropWhile is_digit r2) \<le> Suc (length r2)"
      by (rule le_trans [OF length_dropWhile_le]) simp
    then show ?thesis unfolding match_number_def Let_def Cons by simp
  qed
  have b: "length (skip_unit s) \<le> length s" for s
    by (simp add: skip_unit_def)
  have "length (dropWhile is_digit (c # cs)) \<le> length cs"
    using digit by (simp add: length_dropWhile_le)
  with a [of "c # cs"] b [of "snd (match_number (c # cs))"]
  show "(skip_unit (snd (match_number (c # cs))), c # cs) \<in> measure length"
    by simp
qed simp_all

definition digit_val :: "char \<Rightarrow> nat" where
  "digit_val c = of_char c - 48"

definition nat_of_digits :: "string \<Rightarrow> nat" where
  "nat_of_digits ds = foldl (\<lambda>n c. 10 * n + digit_val c) 0 ds"

text \<open>\<open>float(match)\<close> for a token \<open>digits\<close>, \<open>digits.\<close> or \<open>digits.digits\<close>: the value of
  the decimal. \<open>float\<close> returns the double nearest to it; for a token of at most 15
  characters the double and the decimal lie on the same side of 2000 and of 2030, the
  two bounds the extractor compares with.\<close>

definition float_of :: "string \<Rightarrow> real" where
  "float_of tok =
     (let ip = takeWhile is_digit tok; fp = drop (length ip + 1) tok in
      real (nat_of_digits ip) + real (nat_of_digits fp) / 10 ^ length fp)"

definition in_year_range :: "real \<Rightarrow> bool" where
  "in_year_range num = (2000 \<le> num \<and> num \<le> 2030)"

definition extract_entities :: "chatbot \<Rightarrow> string \<Rightarrow> entities" where
  "extract_entities self text =
     (let text_lower = lower text;
          st = find (\<lambda>s. sublist s text_lower) (get_available_states self);
          di = (if truthy st then
                  find (\<lambda>d. sublist d text_lower) (get_available_districts self (the st))
                else None)
      in \<lparr> ent_state = st,
           ent_district = di,
           ent_year = re_search year_match_at None text,
           ent_month = re_search month_match_at None text,
           ent_number = find (\<lambda>num. \<not> in_year_range num) (map float_of (number_tokens text)) \<rparr>)"

section \<open>Numbers\<close>

text \<open>
  Floats are modelled by reals: rounding error and infinities are outside the model. The
  one special value kept is NaN, which pandas and NumPy return for the mean of no values
  and for the sample standard deviation of fewer than two values.
\<close>

datatype pyfloat = Fl real | NaN

definition mean :: "real list \<Rightarrow> real" where
  "mean xs = sum_list xs / real (length xs)"

definition mean_nan :: "real list \<Rightarrow> pyfloat" where
  "mean_nan xs = (if xs = [] then NaN else Fl (mean xs))"

text \<open>The sample standard deviation (\<open>ddof=1\<close>) of at least two values.\<close>

definition std_sample :: "real list \<Rightarrow> real" where
  "std_sample xs =
     sqrt (sum_list (map (\<lambda>x. (x - mean xs)\<^sup>2) xs) / (real (length xs) - 1))"

definition std :: "real list \<Rightarrow> pyfloat" where
  "std xs = (if length xs < 2 then NaN else Fl (std_sample xs))"

text \<open>\<open>np.polyfit(x, y, 1)[0]\<close> for \<open>x = 0, 1, ..., len(y) - 1\<close>: the slope of the
  least-squares line.\<close>

definition polyfit_slope :: "real list \<Rightarrow> real" where
  "polyfit_slope ys =
     (let xs = map real [0..<length ys]; xm = mean xs; ym = mean ys in
      sum_list (map2 (\<lambda>x y. (x - xm) * (y - ym)) xs ys) /
      sum_list (map (\<lambda>x. (x - xm)\<^sup>2) xs))"

text \<open>Rounding to the nearest integer, ties to the even one.\<close>

definition rint :: "real \<Rightarrow> int" where
  "rint x =
     (let f = \<lfloor>x\<rfloor>; d = x - of_int f in
      if d < 1 / 2 then f else if 1 / 2 < d then f + 1 else if even f then f else f + 1)"

text \<open>\<open>round(x, n)\<close>.\<close>

definition py_round :: "nat \<Rightarrow> real \<Rightarrow> real" where
  "py_round n x = of_int (rint (x * 10 ^ n)) / 10 ^ n"

fun round_nan :: "nat \<Rightarrow> pyfloat \<Rightarrow> pyfloat" where
  "round_nan n NaN = NaN"
| "round_nan n (Fl x) = Fl (py_round n x)"

text \<open>\<open>x > 0\<close> on a float: false for NaN.\<close>

fun positive :: "pyfloat \<Rightarrow> bool" where
  "positive NaN = False"
| "positive (Fl x) = (0 < x)"

text \<open>\<open>(a + b) / 2\<close>.\<close>

fun average2 :: "pyfloat \<Rightarrow> pyfloat \<Rightarrow> pyfloat" where
  "average2 (Fl a) (Fl b) = Fl ((a + b) / 2)"
| "average2 _ _ = NaN"

fun show_nat :: "nat \<Rightarrow> string" where
  "show_nat n =
     (if n < 10 then [char_of (48 + n)]
      else show_nat (n div 10) @ [char_of (48 + n mod 10)])"

definition show_int :: "int \<Rightarrow> string" where
  "show_int i = (if i < 0 then ''-'' @ show_nat (nat (- i)) else show_nat (nat i))"

definition zero_pad :: "nat \<Rightarrow> string \<Rightarrow> string" where
  "zero_pad w s = replicate (w - length s) CHR ''0'' @ s"

text \<open>\<open>strftime("%Y-%m")\<close> of a date given by year and month.\<close>

definition strftime :: "nat \<times> nat \<Rightarrow> string" where
  "strftime d = zero_pad 4 (show_nat (fst d)) @ ''-'' @ zero_pad 2 (show_nat (snd d))"

text \<open>\<open>df.tail(n)\<close>.\<close>

definition tail :: "nat \<Rightarrow> 'a list \<Rightarrow> 'a list" where
  "tail n xs = drop (length xs - n) xs"

section \<open>Trend and Projection Engine\<close>

text \<open>
  The engine reads two columns of the frame it is given, the date and the value; the
  model passes it the rows as pairs (date, value).
\<close>

record trend_summary =
  trend :: real
  seasonality :: real
  volatility :: pyfloat

text \<open>\<open>data.groupby('month')[value_col].mean()\<close>: one mean per calendar month present,
  by ascending month.\<close>

definition monthly_avg :: "series \<Rightarrow> real list" where
  "monthly_avg data =
     map (\<lambda>m. mean (map snd (filter (\<lambda>r. snd (fst r) = m) data)))
       (sort (remdups (map (\<lambda>r. snd (fst r)) data)))"

definition analyze_trends :: "chatbot \<Rightarrow> series \<Rightarrow> trend_summary" where
  "analyze_trends self data0 =
     (if data0 = [] then \<lparr> trend = 0, seasonality = 0, volatility = Fl 0 \<rparr>
      else
        let data = sort_dates self data0;
            y = map snd data;
            tr = (if length y > 1 then polyfit_slope y else 0);
            se = (if length (monthly_avg data) > 1 then std_sample (monthly_avg data) else 0);
            vo = std y
        in \<lparr> trend = py_round 4 tr, seasonality = py_round 2 se, volatility = round_nan 2 vo \<rparr>)"

record prediction =
  p_date :: string
  p_value :: real
  p_confidence :: real

text \<open>
  The loop \<open>for i in range(1, months_ahead + 1)\<close>: \<open>i\<close> is the step index and the last
  argument the number of iterations still to run.
\<close>

fun predict_steps :: "real \<Rightarrow> real \<Rightarrow> nat \<Rightarrow> nat \<times> nat \<Rightarrow> real \<Rightarrow> nat \<Rightarrow> prediction list" where
  "predict_steps tr se i current_date current_value 0 = []"
| "predict_steps tr se i current_date current_value (Suc k) =
     (let next_date = (if snd current_date = 12 then (fst current_date + 1, 1)
                       else (fst current_date, snd current_date + 1));
          predicted_value = current_value + tr * real i;
          seasonal_factor = 1 + se * 0.1 * sin (2 * pi * real (snd next_date) / 12);
          predicted_value = predicted_value * seasonal_factor
      in \<lparr> p_date = strftime next_date,
           p_value = py_round 2 predicted_value,
           p_confidence = max 0.3 (1 - real i * 0.05) \<rparr>
         # predict_steps tr se (i + 1) next_date predicted_value k)"

text \<open>The returned dictionary; \<open>trend_analysis\<close> is \<open>None\<close> for the empty dictionary
  \<open>{}\<close> and otherwise the three entries of \<^const>\<open>analyze_trends\<close>.\<close>

record projection =
  predictions :: "prediction list"
  confidence :: pyfloat
  trend_analysis :: "trend_summary option"

definition predict_future_values :: "chatbot \<Rightarrow> series \<Rightarrow> int \<Rightarrow> projection" where
  "predict_future_values self data0 months_ahead =
     (if data0 = [] then \<lparr> predictions = [], confidence = Fl 0, trend_analysis = None \<rparr>
      else
        let data = sort_dates self data0;
            ta = analyze_trends self data;
            latest_value = snd (last data);
            latest_date = fst (last data);
            preds = predict_steps (trend ta) (seasonality ta) 1 latest_date latest_value
                      (nat months_ahead)
        in \<lparr> predictions = preds,
             confidence = round_nan 2 (mean_nan (map p_confidence preds)),
             trend_analysis = Some ta \<rparr>)"

section \<open>Responses\<close>

text \<open>
  A response is the text the handler returns. Where an f-string formats a float, the
  response keeps the float and its format specification instead of the digits, so a
  response is a list of pieces: text (\<open>S\<close>) and formatted floats (\<open>F\<close>, with the
  specification; the empty specification is \<open>str\<close>).
\<close>

datatype piece = S string | F string pyfloat

type_synonym response = "piece list"

subsection \<open>The symbols of the messages, in UTF-8\<close>

definition bullet :: string where \<comment> \<open>U+2022\<close>
  "bullet = [CHR 0xE2, CHR 0x80, CHR 0xA2]"

definition warning_sign :: string where \<comment> \<open>U+26A0 U+FE0F\<close>
  "warning_sign = [CHR 0xE2, CHR 0x9A, CHR 0xA0, CHR 0xEF, CHR 0xB8, CHR 0x8F]"

definition cross_mark :: string where \<comment> \<open>U+274C\<close>
  "cross_mark = [CHR 0xE2, CHR 0x9D, CHR 0x8C]"

definition cloud_rain :: string where \<comment> \<open>U+1F327 U+FE0F\<close>
  "cloud_rain = [CHR 0xF0, CHR 0x9F, CHR 0x8C, CHR 0xA7, CHR 0xEF, CHR 0xB8, CHR 0x8F]"

definition light_bulb :: string where \<comment> \<open>U+1F4A1\<close>
  "light_bulb = [CHR 0xF0, CHR 0x9F, CHR 0x92, CHR 0xA1]"

definition droplet :: string where \<comment> \<open>U+1F4A7\<close>
  "droplet = [CHR 0xF0, CHR 0x9F, CHR 0x92, CHR 0xA7]"

definition calendar :: string where \<comment> \<open>U+1F4C5\<close>
  "calendar = [CHR 0xF0, CHR 0x9F, CHR 0x93, CHR 0x85]"

definition chart_up :: string where \<comment> \<open>U+1F4C8\<close>
  "chart_up = [CHR 0xF0, CHR 0x9F, CHR 0x93, CHR 0x88]"

definition chart_down :: string where \<comment> \<open>U+1F4C9\<close>
  "chart_down = [CHR 0xF0, CHR 0x9F, CHR 0x93, CHR 0x89]"

definition bar_chart :: string where \<comment> \<open>U+1F4CA\<close>
  "bar_chart = [CHR 0xF0, CHR 0x9F, CHR 0x93, CHR 0x8A]"

definition round_pin :: string where \<comment> \<open>U+1F4CD\<close>
  "round_pin = [CHR 0xF0, CHR 0x9F, CHR 0x93, CHR 0x8D]"

definition crystal_ball :: string where \<comment> \<open>U+1F52E\<close>
  "crystal_ball = [CHR 0xF0, CHR 0x9F, CHR 0x94, CHR 0xAE]"

definition world_map :: string where \<comment> \<open>U+1F5FA U+FE0F\<close>
  "world_map = [CHR 0xF0, CHR 0x9F, CHR 0x97, CHR 0xBA, CHR 0xEF, CHR 0xB8, CHR 0x8F]"

definition thinking_face :: string where \<comment> \<open>U+1F914\<close>
  "thinking_face = [CHR 0xF0, CHR 0x9F, CHR 0xA4, CHR 0x94]"

definition robot_face :: string where \<comment> \<open>U+1F916\<close>
  "robot_face = [CHR 0xF0, CHR 0x9F, CHR 0xA4, CHR 0x96]"

subsection \<open>The fixed messages\<close>

definition greeting_0 :: string where
  \<open>greeting_0 =
     ''Hello! I'm your Groundwater Assistant. I can help you with groundwater and rainfall '' @
     ''data analysis, predictions, and insights. What would you like to know?''\<close>

definition greeting_1 :: string where
  \<open>greeting_1 =
     ''Hi there! I'm here to help you understand groundwater levels, rainfall patterns, '' @
     ''and make predictions. How can I assist you today?''\<close>

definition greeting_2 :: string where
  \<open>greeting_2 =
     ''Welcome! I'm your AI assistant for groundwater monitoring. I can provide data '' @
     ''insights, predictions, and answer questions about water resources. What's on your '' @
     ''mind?''\<close>

definition help_response :: string where
  \<open>help_response =
     ''\<newline>'' @
     robot_face @ '' **I can help you with:**\<newline>'' @
     ''\<newline>'' @
     bar_chart @ '' **Data Queries:**\<newline>'' @
     ''- "What's the rainfall in Maharashtra?"\<newline>'' @
     ''- "Show me groundwater levels in Delhi"\<newline>'' @
     ''- "Rainfall data for 2023"\<newline>'' @
     ''\<newline>'' @
     crystal_ball @ '' **Predictions:**\<newline>'' @
     ''- "Predict groundwater level for next month"\<newline>'' @
     ''- "What will be the water level if rainfall is 100mm?"\<newline>'' @
     ''\<newline>'' @
     crystal_ball @ '' **Future Estimates:**\<newline>'' @
     ''- "Future rainfall forecast for Maharashtra"\<newline>'' @
     ''- "What will be the groundwater levels in Karnataka next year?"\<newline>'' @
     ''- "Estimate rainfall for Delhi for 2025"\<newline>'' @
     ''- "Coming months forecast for Mumbai"\<newline>'' @
     ''\<newline>'' @
     chart_up @ '' **Trends & Analysis:**\<newline>'' @
     ''- "Show rainfall trends in Karnataka"\<newline>'' @
     ''- "Compare groundwater levels between states"\<newline>'' @
     ''- "How has rainfall changed over time?"\<newline>'' @
     ''\<newline>'' @
     world_map @ '' **Geographic Queries:**\<newline>'' @
     ''- "Which states have the highest rainfall?"\<newline>'' @
     ''- "Groundwater levels by district"\<newline>'' @
     ''- "Show me districts in Maharashtra"\<newline>'' @
     ''- "Groundwater in Mumbai district"\<newline>'' @
     ''\<newline>'' @
     light_bulb @ '' **Tips:**\<newline>'' @
     ''- Be specific about states, districts, or time periods\<newline>'' @
     ''- Ask for comparisons between different regions\<newline>'' @
     ''- Request predictions with rainfall values\<newline>'' @
     ''\<newline>'' @
     ''**Example queries:**\<newline>'' @
     ''- "Rainfall in Tamil Nadu for 2023"\<newline>'' @
     ''- "Predict groundwater level for Maharashtra with 150mm rainfall"\<newline>'' @
     ''- "Compare groundwater levels between Delhi and Mumbai"\<newline>'' @
     ''        ''\<close>

definition rainfall_usage :: string where
  \<open>rainfall_usage =
     cloud_rain @ '' **Rainfall Query:**\<newline>'' @
     ''\<newline>'' @
     ''Please specify a state. For example:\<newline>'' @
     ''- 'Rainfall in Maharashtra'' @ [CHR 0x27] @ ''\<newline>'' @
     ''- 'Show rainfall data for Karnataka'' @ [CHR 0x27] @ ''\<newline>'' @
     ''- 'Rainfall in Delhi for 2023-06'' @ [CHR 0x27]\<close>

definition groundwater_usage :: string where
  \<open>groundwater_usage =
     droplet @ '' **Groundwater Query:**\<newline>'' @
     ''\<newline>'' @
     ''Please specify a state or district. For example:\<newline>'' @
     ''- 'Groundwater levels in Maharashtra'' @ [CHR 0x27] @ ''\<newline>'' @
     ''- 'Show groundwater data for Delhi'' @ [CHR 0x27] @ ''\<newline>'' @
     ''- 'Groundwater in Mumbai for 2023-06'' @ [CHR 0x27]\<close>

definition model_unavailable :: string where
  \<open>model_unavailable =
     cross_mark @ '' **Prediction Model Unavailable:**\<newline>'' @
     ''\<newline>'' @
     ''The prediction model is not loaded. Please check if the model file exists.''\<close>

definition prediction_failed :: string where
  \<open>prediction_failed =
     cross_mark @ '' **Prediction Failed:**\<newline>'' @
     ''\<newline>'' @
     ''Unable to generate prediction. Please check the input parameters.''\<close>

definition prediction_usage :: string where
  \<open>prediction_usage =
     crystal_ball @ '' **Prediction Query:**\<newline>'' @
     ''\<newline>'' @
     ''Please provide both state and rainfall value. For example:\<newline>'' @
     ''- 'Predict groundwater level for Maharashtra with 150mm rainfall'' @ [CHR 0x27] @
     ''\<newline>'' @
     ''- 'What will be the water level in Delhi if rainfall is 100mm?'' @ [CHR 0x27] @
     ''\<newline>'' @
     ''- 'Predict groundwater for Mumbai district with 120mm rainfall for 2024'' @ [CHR 0x27]\<close>

definition comparison_response :: string where
  \<open>comparison_response =
     bar_chart @ '' **Comparison Feature:**\<newline>'' @
     ''\<newline>'' @
     ''To compare data between states or districts, please ask specific questions '' @
     ''like:\<newline>'' @
     ''- 'Compare rainfall between Maharashtra and Karnataka'' @ [CHR 0x27] @ ''\<newline>'' @
     ''- 'Which state has higher groundwater levels?'' @ [CHR 0x27] @ ''\<newline>'' @
     ''\<newline>'' @
     ''*Note: Advanced comparison features are being developed.*''\<close>

definition trend_usage :: string where
  \<open>trend_usage =
     chart_up @ '' **Trend Analysis:**\<newline>'' @
     ''\<newline>'' @
     ''Please specify a state for trend analysis. For example:\<newline>'' @
     ''- 'Show rainfall trends in Maharashtra'' @ [CHR 0x27] @ ''\<newline>'' @
     ''- 'Groundwater trends in Karnataka'' @ [CHR 0x27]\<close>

definition district_usage :: string where
  \<open>district_usage =
     round_pin @ '' **District Query:**\<newline>'' @
     ''\<newline>'' @
     ''Please specify a state to see its districts. For example:\<newline>'' @
     ''- 'Show me districts in Maharashtra'' @ [CHR 0x27] @ ''\<newline>'' @
     ''- 'What districts are in Karnataka?'' @ [CHR 0x27]\<close>

definition future_usage :: string where
  \<open>future_usage =
     crystal_ball @ '' **Future Prediction Query:**\<newline>'' @
     ''\<newline>'' @
     ''Please specify a state for future predictions. For example:\<newline>'' @
     ''- 'Future rainfall forecast for Maharashtra'' @ [CHR 0x27] @ ''\<newline>'' @
     ''- 'What will be the groundwater levels in Karnataka next year?'' @ [CHR 0x27] @
     ''\<newline>'' @
     ''- 'Estimate rainfall for Delhi for 2025'' @ [CHR 0x27]\<close>

definition default_response :: string where
  \<open>default_response =
     ''\<newline>'' @
     thinking_face @ '' **I didn't quite understand that query.**\<newline>'' @
     ''\<newline>'' @
     ''Here are some things I can help you with:\<newline>'' @
     ''\<newline>'' @
     cloud_rain @
     '' **Rainfall Data:** Ask about rainfall in specific states or time periods\<newline>'' @
     droplet @
     '' **Groundwater Levels:** Query groundwater data by state or district  \<newline>'' @
     crystal_ball @
     '' **Predictions:** Get groundwater level predictions based on rainfall\<newline>'' @
     bar_chart @ '' **Comparisons:** Compare data between different regions\<newline>'' @
     chart_up @ '' **Trends:** Analyze how water levels change over time\<newline>'' @
     ''\<newline>'' @
     ''**Try asking:**\<newline>'' @
     ''- "What's the rainfall in Maharashtra?"\<newline>'' @
     ''- "Show me groundwater levels in Delhi"\<newline>'' @
     ''- "Predict groundwater level for Karnataka with 120mm rainfall"\<newline>'' @
     ''\<newline>'' @
     ''Type **'help'** for more detailed information about my capabilities!\<newline>'' @
     ''        ''\<close>

section \<open>Query and Aggregation Handlers\<close>

definition get_rainfall_data :: "chatbot \<Rightarrow> string option \<Rightarrow> string option \<Rightarrow> rainfall_row list" where
  "get_rainfall_data self st ym =
     (let data = rainfall self;
          data = (if truthy st then filter (\<lambda>r. r_state_name r = the st) data else data);
          data = (if truthy ym then filter (\<lambda>r. r_year_month r = the ym) data else data)
      in data)"

definition get_groundwater_data ::
  "chatbot \<Rightarrow> string option \<Rightarrow> string option \<Rightarrow> string option \<Rightarrow> groundwater_row list" where
  "get_groundwater_data self st di ym =
     (let data = groundwater self;
          data = (if truthy st then filter (\<lambda>r. g_state_name r = the st) data else data);
          data = (if truthy di then filter (\<lambda>r. g_district_name r = the di) data else data);
          data = (if truthy ym then filter (\<lambda>r. g_year_month r = the ym) data else data)
      in data)"

definition predict_groundwater :: "chatbot \<Rightarrow> string \<Rightarrow> real \<Rightarrow> real \<Rightarrow> real option" where
  "predict_groundwater self st rainfall_value lag_gw =
     (case model self of
        None \<Rightarrow> None
      | Some m \<Rightarrow>
          (case m rainfall_value lag_gw of
             None \<Rightarrow> None
           | Some prediction \<Rightarrow> Some (py_round 2 prediction)))"

text \<open>\<open>f"{district.title()}, {state.title()}" if district else state.title()\<close>.\<close>

definition location :: "string option \<Rightarrow> string option \<Rightarrow> string" where
  "location di st =
     (if truthy di then title (the di) @ '', '' @ title (the st) else title (the st))"

definition handle_rainfall_query :: "chatbot \<Rightarrow> entities \<Rightarrow> response" where
  "handle_rainfall_query self ents =
     (let st = ent_state ents; ym = ent_month ents in
      if truthy st then
        (let data = get_rainfall_data self st ym in
         if data \<noteq> [] then
           (if truthy ym then
              [S (cloud_rain @ '' **Rainfall in '' @ title (the st) @ '' for '' @ the ym @
                  '':**\<newline>\<newline>Average rainfall: **''),
               F ''.2f'' (Fl (mean (map rainfall_actual_mm data))),
               S '' mm**'']
            else
              (let latest_data = tail 12 (sort_rainfall self data) in
               [S (cloud_rain @ '' **Recent Rainfall in '' @ title (the st) @
                   '':**\<newline>\<newline>Average rainfall (last 12 months): **''),
                F ''.2f'' (Fl (mean (map rainfall_actual_mm latest_data))),
                S ('' mm**\<newline>\<newline>Latest data available: '' @
                   r_year_month (last latest_data))]))
         else [S (cross_mark @ '' No rainfall data found for '' @ title (the st))])
      else [S rainfall_usage])"

definition handle_groundwater_query :: "chatbot \<Rightarrow> entities \<Rightarrow> response" where
  "handle_groundwater_query self ents =
     (let st = ent_state ents; di = ent_district ents; ym = ent_month ents in
      if truthy st then
        (let data = get_groundwater_data self st di ym in
         if data \<noteq> [] then
           (if truthy ym then
              [S (droplet @ '' **Groundwater Level in '' @ location di st @ '' for '' @ the ym @
                  '':**\<newline>\<newline>Average groundwater level: **''),
               F ''.2f'' (Fl (mean (map gw_level_m_bgl data))),
               S '' m bgl**'']
            else
              (let latest_data = tail 12 (sort_groundwater self data) in
               [S (droplet @ '' **Recent Groundwater Levels in '' @ location di st @
                   '':**\<newline>\<newline>Average groundwater level (last 12 months): **''),
                F ''.2f'' (Fl (mean (map gw_level_m_bgl latest_data))),
                S ('' m bgl**\<newline>\<newline>Latest data available: '' @
                   g_year_month (last latest_data))]))
         else [S (cross_mark @ '' No groundwater data found for '' @ location di st)])
      else [S groundwater_usage])"

text \<open>Truthiness of the extracted number: \<open>None\<close> and \<open>0.0\<close> are false.\<close>

fun number_truthy :: "real option \<Rightarrow> bool" where
  "number_truthy None = False"
| "number_truthy (Some x) = (x \<noteq> 0)"

definition handle_prediction_query :: "chatbot \<Rightarrow> entities \<Rightarrow> response" where
  "handle_prediction_query self ents =
     (if Option.is_none (model self) then [S model_unavailable]
      else
        let st = ent_state ents; di = ent_district ents;
            rainfall_value = ent_number ents; yr = ent_year ents in
        if truthy st \<and> number_truthy rainfall_value then
          (let latest_gw_data =
                 tail 1 (sort_groundwater self (get_groundwater_data self st di None)) in
           if latest_gw_data \<noteq> [] then
             (let lag_gw = gw_level_m_bgl (hd latest_gw_data) in
              case predict_groundwater self (the st) (the rainfall_value) lag_gw of
                Some prediction \<Rightarrow>
                  [S (crystal_ball @ '' **Groundwater Prediction for '' @ location di st @
                      (if truthy yr then '' for '' @ the yr else []) @ '':**\<newline>\<newline>'' @
                      ''**Input Parameters:**\<newline>'' @
                      ''- Rainfall: ''),
                   F [] (Fl (the rainfall_value)),
                   S ('' mm\<newline>'' @ ''- Current groundwater level: ''),
                   F ''.2f'' (Fl lag_gw),
                   S ('' m bgl\<newline>'' @
                      (if truthy di then ''- Location: '' @ title (the di) @ '' district\<newline>''
                       else []) @
                      (if truthy yr then ''- Year: '' @ the yr @ ''\<newline>'' else []) @
                      ''\<newline>**Predicted groundwater level:** **''),
                   F [] (Fl prediction),
                   S ('' m bgl**\<newline>\<newline>'' @
                      ''*Note: This is a machine learning prediction based on historical data.*'')]
              | None \<Rightarrow> [S prediction_failed])
           else
             [S (cross_mark @ '' **No Historical Data:**\<newline>\<newline>'' @
                 ''No groundwater data found for '' @ location di st @
                 '' to use as baseline for prediction.'')])
        else [S prediction_usage])"

definition handle_comparison_query :: "chatbot \<Rightarrow> entities \<Rightarrow> response" where
  "handle_comparison_query self ents = [S comparison_response]"

text \<open>\<open>series.diff().mean()\<close>: the mean of the differences of consecutive values, NaN
  when there is no difference to take.\<close>

definition diff_mean :: "real list \<Rightarrow> pyfloat" where
  "diff_mean vals = mean_nan (map2 (\<lambda>a b. b - a) vals (tl vals))"

definition handle_trend_query :: "chatbot \<Rightarrow> entities \<Rightarrow> response" where
  "handle_trend_query self ents =
     (let st = ent_state ents in
      if truthy st then
        (let rainfall_data = tail 24 (sort_rainfall self (get_rainfall_data self st None));
             gw_data = tail 24 (sort_groundwater self (get_groundwater_data self st None None)) in
         if rainfall_data \<noteq> [] \<and> gw_data \<noteq> [] then
           (let rainfall_trend = diff_mean (map rainfall_actual_mm rainfall_data);
                gw_trend = diff_mean (map gw_level_m_bgl gw_data) in
            [S (chart_up @ '' **Trend Analysis for '' @ title (the st) @ '':**\<newline>\<newline>'' @
                ''**Rainfall Trend:** ''),
             F ''+.2f'' rainfall_trend,
             S ('' mm/month\<newline>'' @ ''**Groundwater Trend:** ''),
             F ''+.2f'' gw_trend,
             S ('' m bgl/month\<newline>\<newline>'' @
                (if positive rainfall_trend
                 then chart_up @ '' Rainfall is increasing over time\<newline>''
                 else chart_down @ '' Rainfall is decreasing over time\<newline>'') @
                (if positive gw_trend
                 then chart_up @
                      '' Groundwater levels are rising (good for water availability)\<newline>''
                 else chart_down @
                      '' Groundwater levels are declining (concerning for water availability)\<newline>''))])
         else
           [S (cross_mark @ '' **Insufficient Data:**\<newline>\<newline>'' @
               ''Not enough data available for trend analysis in '' @ title (the st))])
      else [S trend_usage])"

text \<open>\<open>sep.join(xs)\<close>.\<close>

fun join :: "string \<Rightarrow> string list \<Rightarrow> string" where
  "join sep [] = []"
| "join sep [x] = x"
| "join sep (x # y # ys) = x @ sep @ join sep (y # ys)"

definition handle_district_query :: "chatbot \<Rightarrow> entities \<Rightarrow> response" where
  "handle_district_query self ents =
     (let st = ent_state ents in
      if truthy st then
        (let districts = get_available_districts self (the st) in
         if districts \<noteq> [] then
           (let district_list = take 10 districts;
                district_text = join ''\<newline>'' (map (\<lambda>d. ''- '' @ title d) district_list) in
            [S (round_pin @ '' **Districts in '' @ title (the st) @ '':**\<newline>\<newline>'' @
                district_text @
                (if length districts > 10
                 then ''\<newline>\<newline>... and '' @ show_nat (length districts - 10) @
                      '' more districts''
                 else []) @
                ''\<newline>\<newline>**Total districts:** '' @ show_nat (length districts) @
                ''\<newline>\<newline>'' @ light_bulb @
                '' **Tip:** Ask for specific district data like:\<newline>'' @
                ''- 'Groundwater levels in '' @ title (hd districts) @ [CHR 0x27])])
         else
           [S (cross_mark @ '' **No Districts Found:**\<newline>\<newline>'' @
               ''No district data available for '' @ title (the st))])
      else [S district_usage])"

text \<open>One entry of the six-month table, for a rainfall and a groundwater projection
  point.\<close>

definition forecast_entry :: "prediction \<times> prediction \<Rightarrow> response" where
  "forecast_entry pr =
     (let rain_pred = fst pr; gw_pred = snd pr in
      [S (''- **'' @ p_date rain_pred @ '':**\<newline>'' @ ''  '' @ bullet @ '' Rainfall: ''),
       F ''.1f'' (Fl (p_value rain_pred)),
       S '' mm (confidence: '',
       F ''.1%'' (Fl (p_confidence rain_pred)),
       S ('')\<newline>'' @ ''  '' @ bullet @ '' Groundwater: ''),
       F ''.2f'' (Fl (p_value gw_pred)),
       S '' m bgl (confidence: '',
       F ''.1%'' (Fl (p_confidence gw_pred)),
       S '')\<newline>''])"

definition handle_future_prediction_query :: "chatbot \<Rightarrow> entities \<Rightarrow> response" where
  "handle_future_prediction_query self ents =
     (let st = ent_state ents; di = ent_district ents; yr = ent_year ents;
          months_ahead =
            (if truthy yr then
               (let current_year = 2024; target_year = int (nat_of_digits (the yr)) in
                max 1 (min ((target_year - current_year) * 12) 60))
             else 12)
      in
      if truthy st then
        (let rainfall_data = get_rainfall_data self st None;
             groundwater_data = get_groundwater_data self st di None in
         if rainfall_data \<noteq> [] \<and> groundwater_data \<noteq> [] then
           (let recent_rainfall = tail 36 rainfall_data;
                recent_groundwater = tail 36 groundwater_data;
                rainfall_predictions =
                  predict_future_values self
                    (map (\<lambda>r. (r_date r, rainfall_actual_mm r)) recent_rainfall) months_ahead;
                groundwater_predictions =
                  predict_future_values self
                    (map (\<lambda>r. (g_date r, gw_level_m_bgl r)) recent_groundwater) months_ahead
            in
            [S (crystal_ball @ '' **Future Predictions for '' @ location di st @
                '':**\<newline>\<newline>'')] @
            (case trend_analysis rainfall_predictions of
               None \<Rightarrow> []
             | Some trend_info \<Rightarrow>
                 [S (''**'' @ bar_chart @ '' Trend Analysis:**\<newline>'' @ ''- Rainfall trend: ''),
                  F ''+.4f'' (Fl (trend trend_info)),
                  S ('' mm/month\<newline>'' @ ''- Seasonality: ''),
                  F ''.2f'' (Fl (seasonality trend_info)),
                  S (''\<newline>'' @ ''- Volatility: ''),
                  F ''.2f'' (volatility trend_info),
                  S ''\<newline>\<newline>'']) @
            [S (''**'' @ calendar @ '' Next 6 Months Forecast:**\<newline>'')] @
            concat (map forecast_entry
              (zip (take 6 (predictions rainfall_predictions))
                   (take 6 (predictions groundwater_predictions)))) @
            (if months_ahead > 6 then
               (let final_rain = last (predictions rainfall_predictions);
                    final_gw = last (predictions groundwater_predictions) in
                [S (''\<newline>**'' @ chart_up @ '' Long-term Projection ('' @
                    show_int months_ahead @ '' months):**\<newline>'' @
                    ''- **'' @ p_date final_rain @ '':**\<newline>'' @
                    ''  '' @ bullet @ '' Expected rainfall: ''),
                 F ''.1f'' (Fl (p_value final_rain)),
                 S ('' mm\<newline>'' @ ''  '' @ bullet @ '' Expected groundwater: ''),
                 F ''.2f'' (Fl (p_value final_gw)),
                 S '' m bgl\<newline>''])
             else []) @
            [S (''\<newline>**'' @ warning_sign @ '' Confidence Level:** ''),
             F ''.1%''
               (average2 (confidence rainfall_predictions) (confidence groundwater_predictions)),
             S (''\<newline>'' @
                ''*Note: Predictions are based on historical trends and may not account '' @
                ''for extreme weather events or human interventions.*'')])
         else
           [S (cross_mark @ '' **Insufficient Data:**\<newline>\<newline>'' @
               ''Not enough historical data available for future predictions in '' @
               location di st @ ''.'')])
      else [S future_usage])"

section \<open>Intent Router\<close>

text \<open>
  \<open>np.random.choice(greetings)\<close> returns one of the three greetings, chosen by NumPy's
  global generator; the model takes the generator's draw as an argument.
\<close>

definition get_greeting_response :: "nat \<Rightarrow> response" where
  "get_greeting_response draw = [S ([greeting_0, greeting_1, greeting_2] ! (draw mod 3))]"

text \<open>\<open>any(word in s for word in words)\<close>.\<close>

definition contains_any :: "string list \<Rightarrow> string \<Rightarrow> bool" where
  "contains_any words s = list_ex (\<lambda>word. sublist word s) words"

definition greeting_words :: "string list" where
  "greeting_words =
     [''hello'', ''hi'', ''hey'', ''good morning'', ''good afternoon'', ''good evening'']"

definition future_words :: "string list" where
  "future_words =
     [''future'', ''forecast'', ''next year'', ''coming months'', ''estimate'', ''projection'']"

definition generate_response :: "chatbot \<Rightarrow> nat \<Rightarrow> string \<Rightarrow> response" where
  "generate_response self draw user_input =
     (let user_input_lower = lower user_input;
          ents = extract_entities self user_input in
      if contains_any greeting_words user_input_lower then get_greeting_response draw
      else if contains_any [''help'', ''what can you do'', ''commands'', ''features'']
                user_input_lower
      then [S help_response]
      else if contains_any future_words user_input_lower
      then handle_future_prediction_query self ents
      else if contains_any [''predict'', ''what will be''] user_input_lower
      then handle_prediction_query self ents
      else if contains_any [''rainfall'', ''rain'', ''precipitation''] user_input_lower \<and>
              \<not> contains_any future_words user_input_lower
      then handle_rainfall_query self ents
      else if contains_any [''groundwater'', ''water level'', ''gw level''] user_input_lower
      then handle_groundwater_query self ents
      else if contains_any [''compare'', ''comparison'', ''vs'', ''versus''] user_input_lower
      then handle_comparison_query self ents
      else if contains_any [''trend'', ''trends'', ''over time'', ''change''] user_input_lower
      then handle_trend_query self ents
      else if contains_any [''district'', ''districts'', ''show me districts''] user_input_lower
      then handle_district_query self ents
      else if contains_any future_words user_input_lower
      then handle_future_prediction_query self ents
      else [S default_response])"

section \<open>Token boundaries\<close>



section \<open>Example stores\<close>

text \<open>A store with three states, no predictor, and stable sorts.\<close>

definition demo_store :: chatbot where
  "demo_store =
     \<lparr> rainfall =
         [\<lparr> r_state_name = ''delhi'', r_year_month = ''2023-01'', r_date = (2023, 1),
            rainfall_actual_mm = 19 \<rparr>,
          \<lparr> r_state_name = ''bihar'', r_year_month = ''2023-01'', r_date = (2023, 1),
            rainfall_actual_mm = 10 \<rparr>,
          \<lparr> r_state_name = ''assam'', r_year_month = ''2023-01'', r_date = (2023, 1),
            rainfall_actual_mm = 12 \<rparr>],
       groundwater =
         [\<lparr> g_state_name = ''delhi'', g_district_name = ''new delhi'',
            g_year_month = ''2023-01'', g_date = (2023, 1), gw_level_m_bgl = 7 \<rparr>,
          \<lparr> g_state_name = ''assam'', g_district_name = ''kamrup'',
            g_year_month = ''2023-01'', g_date = (2023, 1), gw_level_m_bgl = 4 \<rparr>],
       model = None,
       sort_rainfall = sort_key r_year_month,
       sort_groundwater = sort_key g_year_month,
       sort_dates = sort_key fst \<rparr>"

section \<open>Routing\<close>

lemma greeting_route:
  "contains_any greeting_words (lower text) \<Longrightarrow>
   generate_response self draw text = get_greeting_response draw"
  by (simp add: generate_response_def Let_def)

lemma greeting_draw_cases:
  "get_greeting_response draw = [S greeting_0] \<or>
   get_greeting_response draw = [S greeting_1] \<or>
   get_greeting_response draw = [S greeting_2]"
proof -
  have "draw mod 3 = 0 \<or> draw mod 3 = 1 \<or> draw mod 3 = 2" by arith
  then show ?thesis by (auto simp: get_greeting_response_def)
qed

lemma greetings_not_unavailable:
  "greeting_0 \<noteq> model_unavailable" "greeting_1 \<noteq> model_unavailable"
  "greeting_2 \<noteq> model_unavailable"
  by code_simp+

text \<open>
  C1. With the predictor unavailable, the text "Predict groundwater level for Delhi with
  100mm rainfall" should be answered by the model-unavailable message. It is not: the
  lower-cased text contains "hi" (in "delhi"), the greeting test comes first, and the
  answer is one of the greetings, whatever the store and the predictor are.
\<close>

theorem delhi_prediction_is_greeted:
  "generate_response self draw ''Predict groundwater level for Delhi with 100mm rainfall'' =
     get_greeting_response draw \<and>
   get_greeting_response draw \<noteq> [S model_unavailable]"
proof
  have "contains_any greeting_words
          (lower ''Predict groundwater level for Delhi with 100mm rainfall'')"
    by code_simp
  then show "generate_response self draw
      ''Predict groundwater level for Delhi with 100mm rainfall'' = get_greeting_response draw"
    by (rule greeting_route)
  show "get_greeting_response draw \<noteq> [S model_unavailable]"
    using greeting_draw_cases [of draw] greetings_not_unavailable by auto
qed




text \<open>
  C9. Keyword detection is substring containment: every text whose lower-casing contains
  "hi" anywhere, also inside a word such as "Delhi", is answered by a greeting, whatever
  else it contains.
\<close>

theorem hi_substring_greets:
  assumes "sublist ''hi'' (lower text)"
  shows "generate_response self draw text = get_greeting_response draw \<and>
         get_greeting_response draw \<in> set [[S greeting_0], [S greeting_1], [S greeting_2]]"
proof -
  from assms have "contains_any greeting_words (lower text)"
    by (simp add: contains_any_def greeting_words_def)
  then have "generate_response self draw text = get_greeting_response draw"
    by (rule greeting_route)
  then show ?thesis using greeting_draw_cases [of draw] by auto
qed

theorem hi_substring_greets_witness:
  "sublist ''hi'' (lower ''Show me groundwater levels in Delhi'') \<and>
   generate_response demo_store 2 ''Show me groundwater levels in Delhi'' = [S greeting_2]"
proof -
  have h: "sublist ''hi'' (lower ''Show me groundwater levels in Delhi'')" by code_simp
  from hi_substring_greets [OF h, of demo_store 2] h
  show ?thesis by (simp add: get_greeting_response_def)
qed

section \<open>Projection\<close>

text \<open>
  C6, as stated: on an empty series the engine returns no projection point and a trend
  summary of zeros. The summary it returns is the empty dictionary, with no entries.
\<close>

theorem empty_series_summary_is_not_zeros:
  "\<not> (predictions (predict_future_values demo_store [] 12) = [] \<and>
      trend_analysis (predict_future_values demo_store [] 12) =
        Some \<lparr> trend = 0, seasonality = 0, volatility = Fl 0 \<rparr>)"
  by (simp add: predict_future_values_def)

text \<open>
  C6, amended: on an empty series \<open>predict_future_values\<close> returns no projection point,
  confidence 0 and an empty trend summary; the summary of zeros is what
  \<open>analyze_trends\<close> returns on an empty series.
\<close>

theorem empty_series_projection:
  "predictions (predict_future_values self [] months_ahead) = [] \<and>
   confidence (predict_future_values self [] months_ahead) = Fl 0 \<and>
   trend_analysis (predict_future_values self [] months_ahead) = None \<and>
   analyze_trends self [] = \<lparr> trend = 0, seasonality = 0, volatility = Fl 0 \<rparr>"
  by (simp add: predict_future_values_def analyze_trends_def)

lemma predict_steps_length: "length (predict_steps tr se i d v k) = k"
  by (induction k arbitrary: i d v) (simp_all add: Let_def)

lemma predict_steps_confidence:
  "n < k \<Longrightarrow>
   p_confidence (predict_steps tr se i d v k ! n) = max 0.3 (1 - real (i + n) * 0.05)"
proof (induction k arbitrary: i d v n)
  case 0
  then show ?case by simp
next
  case (Suc k)
  show ?case
  proof (cases n)
    case 0
    then show ?thesis by (simp add: Let_def)
  next
    case (Suc m)
    with Suc.prems have "m < k" by simp
    from Suc.IH [OF this, of "i + 1"] Suc show ?thesis by (simp add: Let_def add.assoc)
  qed
qed

lemma predict_future_values_steps:
  assumes "data \<noteq> []"
  shows "\<exists>tr se d v. predictions (predict_future_values self data h) =
           predict_steps tr se 1 d v (nat h)"
proof -
  from assms have "predictions (predict_future_values self data h) =
      predict_steps (trend (analyze_trends self (sort_dates self data)))
        (seasonality (analyze_trends self (sort_dates self data))) 1
        (fst (last (sort_dates self data))) (snd (last (sort_dates self data))) (nat h)"
    by (simp add: predict_future_values_def Let_def)
  then show ?thesis by blast
qed

lemma projection_length:
  "data \<noteq> [] \<Longrightarrow> length (predictions (predict_future_values self data h)) = nat h"
  using predict_future_values_steps [of data self h] by (auto simp: predict_steps_length)

text \<open>The confidence of the i-th projection point, counted from 1.\<close>

lemma projection_confidence:
  assumes "data \<noteq> []" "1 \<le> i" "int i \<le> h"
  shows "p_confidence (predictions (predict_future_values self data h) ! (i - 1)) =
           max 0.3 (1 - 0.05 * real i)"
proof -
  from predict_future_values_steps [OF assms(1), of self h] obtain tr se d v where
    p: "predictions (predict_future_values self data h) = predict_steps tr se 1 d v (nat h)"
    by blast
  from assms have "i - 1 < nat h" by linarith
  from predict_steps_confidence [OF this, of tr se 1 d v] assms(2) show ?thesis
    by (simp add: p mult.commute)
qed

text \<open>
  C8. For a non-empty series and a horizon \<open>h\<close> from 1 to 60, the engine returns \<open>h\<close>
  points, and the i-th point (\<open>1 \<le> i \<le> h\<close>) has confidence \<open>max(0.3, 1 - 0.05 i)\<close>
  exactly; so the confidence never increases from a point to a later one and is never
  below 0.3.
\<close>

theorem confidence_formula:
  assumes "data \<noteq> []" "1 \<le> h" "h \<le> 60" "1 \<le> i" "i \<le> j" "int j \<le> h"
  shows "length (predictions (predict_future_values self data h)) = nat h \<and>
         p_confidence (predictions (predict_future_values self data h) ! (i - 1)) =
           max 0.3 (1 - 0.05 * real i) \<and>
         p_confidence (predictions (predict_future_values self data h) ! (j - 1)) \<le>
           p_confidence (predictions (predict_future_values self data h) ! (i - 1)) \<and>
         0.3 \<le> p_confidence (predictions (predict_future_values self data h) ! (i - 1))"
proof -
  have ci: "p_confidence (predictions (predict_future_values self data h) ! (i - 1)) =
              max 0.3 (1 - 0.05 * real i)"
    using assms by (intro projection_confidence) auto
  have cj: "p_confidence (predictions (predict_future_values self data h) ! (j - 1)) =
              max 0.3 (1 - 0.05 * real j)"
    using assms by (intro projection_confidence) auto
  from \<open>i \<le> j\<close> have "max 0.3 (1 - 0.05 * real j) \<le> max 0.3 (1 - 0.05 * real i)"
    by (simp add: max_def)
  with ci cj projection_length [OF assms(1), of self h] show ?thesis by simp
qed

theorem confidence_formula_witness:
  "[((2024, 12), 5)] \<noteq> ([] :: series) \<and> (1::int) \<le> 20 \<and> (20::int) \<le> 60 \<and>
   (1::nat) \<le> 3 \<and> (3::nat) \<le> 20 \<and> int 20 \<le> 20 \<and>
   length (predictions (predict_future_values demo_store [((2024, 12), 5)] 20)) = 20 \<and>
   p_confidence (predictions (predict_future_values demo_store [((2024, 12), 5)] 20) ! 2) = 0.85 \<and>
   p_confidence (predictions (predict_future_values demo_store [((2024, 12), 5)] 20) ! 19) \<le>
     p_confidence (predictions (predict_future_values demo_store [((2024, 12), 5)] 20) ! 2)"
  using confidence_formula [of "[((2024, 12), 5)]" 20 3 20 demo_store] by simp

text \<open>
  C7, as stated: the confidence of each point is strictly below that of the point before
  it. From the 14th point on the confidence is the floor 0.3: with horizon 16, points 14
  and 15 have the same confidence.
\<close>

theorem confidence_constant_at_floor:
  "\<not> p_confidence (predictions (predict_future_values demo_store [((2024, 12), 5)] 16) ! 14) <
     p_confidence (predictions (predict_future_values demo_store [((2024, 12), 5)] 16) ! 13)"
  using projection_confidence [of "[((2024, 12), 5)]" 14 16 demo_store]
        projection_confidence [of "[((2024, 12), 5)]" 15 16 demo_store]
  by simp

text \<open>
  C7, amended: for a non-empty series, the confidence of point \<open>i + 1\<close> is never above
  that of point \<open>i\<close>; it is strictly below it for \<open>i \<le> 13\<close>, and both are 0.3 for
  \<open>i \<ge> 14\<close>.
\<close>

theorem confidence_decreases_to_floor:
  assumes "data \<noteq> []" "1 \<le> i" "int (i + 1) \<le> h"
  shows "p_confidence (predictions (predict_future_values self data h) ! i) \<le>
           p_confidence (predictions (predict_future_values self data h) ! (i - 1)) \<and>
         (if i < 14
          then p_confidence (predictions (predict_future_values self data h) ! i) <
                 p_confidence (predictions (predict_future_values self data h) ! (i - 1))
          else p_confidence (predictions (predict_future_values self data h) ! i) = 0.3 \<and>
               p_confidence (predictions (predict_future_values self data h) ! (i - 1)) = 0.3)"
proof -
  have ci: "p_confidence (predictions (predict_future_values self data h) ! (i - 1)) =
              max 0.3 (1 - 0.05 * real i)"
    using assms by (intro projection_confidence) auto
  have cj: "p_confidence (predictions (predict_future_values self data h) ! i) =
              max 0.3 (1 - 0.05 * real (i + 1))"
    using assms projection_confidence [of data "i + 1" h self] by simp
  show ?thesis
  proof (cases "i < 14")
    case True
    then have "real i \<le> 13" by simp
    then show ?thesis unfolding ci cj using True by (simp add: max_def)
  next
    case False
    then have "14 \<le> real i" by simp
    then show ?thesis unfolding ci cj using False by (simp add: max_def)
  qed
qed

theorem confidence_decreases_to_floor_witness:
  "[((2024, 12), 5)] \<noteq> ([] :: series) \<and> (1::nat) \<le> 13 \<and> int (13 + 1) \<le> 16 \<and>
   p_confidence (predictions (predict_future_values demo_store [((2024, 12), 5)] 16) ! 13) <
     p_confidence (predictions (predict_future_values demo_store [((2024, 12), 5)] 16) ! 12)"
  using confidence_decreases_to_floor [of "[((2024, 12), 5)]" 13 16 demo_store] by simp

section \<open>Entities and handlers\<close>


lemma find_none_of_list_ex: "\<not> list_ex P xs \<Longrightarrow> find P xs = None"
  by (induction xs) simp_all


lemma ent_state_find:
  "ent_state (extract_entities self text) =
     find (\<lambda>s. sublist s (lower text)) (get_available_states self)"
  by (simp add: extract_entities_def Let_def)




lemma groundwater_route:
  assumes "\<not> contains_any greeting_words (lower text)"
    and "\<not> contains_any [''help'', ''what can you do'', ''commands'', ''features''] (lower text)"
    and "\<not> contains_any future_words (lower text)"
    and "\<not> contains_any [''predict'', ''what will be''] (lower text)"
    and "\<not> contains_any [''rainfall'', ''rain'', ''precipitation''] (lower text)"
    and "contains_any [''groundwater'', ''water level'', ''gw level''] (lower text)"
  shows "generate_response self draw text =
           handle_groundwater_query self (extract_entities self text)"
  using assms by (simp add: generate_response_def Let_def)

lemma xyz_query_routed:
  "generate_response self draw ''Groundwater levels in xyz'' =
     handle_groundwater_query self (extract_entities self ''Groundwater levels in xyz'')"
  by (rule groundwater_route; code_simp)

lemma xyz_query_usage:
  assumes "\<not> list_ex (\<lambda>s. sublist s (lower ''Groundwater levels in xyz''))
             (get_available_states self)"
  shows "generate_response self draw ''Groundwater levels in xyz'' = [S groundwater_usage]"
proof -
  from assms have "ent_state (extract_entities self ''Groundwater levels in xyz'') = None"
    unfolding ent_state_find by (rule find_none_of_list_ex)
  then show ?thesis
    unfolding xyz_query_routed by (simp add: handle_groundwater_query_def)
qed

lemma usage_is_not_no_data:
  "\<not> sublist ''xyz'' (lower groundwater_usage)"
  "\<not> sublist ''No groundwater data found'' groundwater_usage"
  by code_simp+

text \<open>
  C5, as stated: with no groundwater row for a district "xyz", the text "Groundwater
  levels in xyz" is answered by a no-data message that mentions "xyz". No state is
  extracted from the text, and the answer is the usage prompt of the groundwater
  handler.
\<close>

theorem unknown_district_gets_usage_prompt:
  "\<not> list_ex (\<lambda>r. g_district_name r = ''xyz'') (groundwater demo_store) \<and>
   generate_response demo_store 0 ''Groundwater levels in xyz'' = [S groundwater_usage] \<and>
   \<not> sublist ''xyz'' (lower groundwater_usage) \<and>
   \<not> sublist ''No groundwater data found'' groundwater_usage"
proof -
  have a: "\<not> list_ex (\<lambda>r. g_district_name r = ''xyz'') (groundwater demo_store)"
    by code_simp
  have b: "\<not> list_ex (\<lambda>s. sublist s (lower ''Groundwater levels in xyz''))
               (get_available_states demo_store)"
    by code_simp
  from a xyz_query_usage [OF b] usage_is_not_no_data show ?thesis by simp
qed

text \<open>
  C5, amended: when no vocabulary state occurs in the lower-cased text "Groundwater
  levels in xyz", the answer is the usage prompt of the groundwater handler, which
  neither mentions "xyz" nor says that no data was found; no other handler runs.
\<close>

theorem groundwater_query_without_state:
  assumes "\<not> list_ex (\<lambda>s. sublist s (lower ''Groundwater levels in xyz''))
             (get_available_states self)"
  shows "generate_response self draw ''Groundwater levels in xyz'' = [S groundwater_usage] \<and>
         \<not> sublist ''xyz'' (lower groundwater_usage) \<and>
         \<not> sublist ''No groundwater data found'' groundwater_usage"
  using xyz_query_usage [OF assms] usage_is_not_no_data by simp

theorem groundwater_query_without_state_witness:
  "\<not> list_ex (\<lambda>s. sublist s (lower ''Groundwater levels in xyz''))
       (get_available_states demo_store) \<and>
   generate_response demo_store 1 ''Groundwater levels in xyz'' = [S groundwater_usage]"
proof -
  have b: "\<not> list_ex (\<lambda>s. sublist s (lower ''Groundwater levels in xyz''))
               (get_available_states demo_store)"
    by code_simp
  from groundwater_query_without_state [OF b] b show ?thesis by blast
qed














section \<open>Year ranges\<close>
























end
